theory Spec2Isabelle
  imports Main "HOL-Library.Char_ord" "HOL-Library.List_Lexorder"
begin

section \<open>Values, dictionaries and errors\<close>

text \<open>
  Python values as they travel through the serializers: a request payload is a dictionary
  from field names to JSON values, and \<open>validated_data\<close> is again such a dictionary.
  A decimal number is kept in hundredths. Dictionaries are association lists read with
  \<open>map_of\<close>; every dictionary the serializers build has distinct keys.
\<close>

datatype val =
    VNone
  | VStr string
  | VInt int
  | VDec int
  | VList "val list"
  | VDict "(string \<times> val) list"

type_synonym dict = "(string \<times> val) list"

text \<open>Every exception of the program and of the framework calls it makes is a value.\<close>

datatype error =
    ValidationError
  | FieldError
  | TypeError
  | IntegrityError
  | MultipleObjectsReturned
  | Http404

text \<open>\<open>d.pop(k, default)\<close>: the value under \<open>k\<close> (the default when the key is absent) and
  the dictionary without the key.\<close>

definition dict_pop :: "string \<Rightarrow> val \<Rightarrow> dict \<Rightarrow> val \<times> dict" where
  "dict_pop k dflt d =
     (case map_of d k of
        None \<Rightarrow> (dflt, d)
      | Some v \<Rightarrow> (v, filter (\<lambda>kv. fst kv \<noteq> k) d))"

section \<open>The data model\<close>

text \<open>
  Modelled from the spec: the model classes of \<open>core/models.py\<close> (\<open>Tag\<close>, \<open>Ingredient\<close>,
  \<open>Recipe\<close>) are imported by the serializers and are not part of the sources. The spec gives
  \<open>Tag\<close> and \<open>Ingredient\<close> as \<open>{id, name, user}\<close> and \<open>Recipe\<close> as
  \<open>{id, user, title, time_minutes, price, link, description, image}\<close> with a many-to-many
  relation to each of the two; a user is named by its id. The relation is called \<open>tags\<close>
  and \<open>ingredient\<close> in the serializer and its tests.
\<close>

record entity =
  ent_id :: nat
  ent_user :: nat
  ent_name :: string

record recipe =
  rec_id :: nat
  rec_user :: nat
  rec_title :: string
  rec_time_minutes :: int
  rec_price :: int
  rec_link :: string
  rec_description :: string
  rec_image :: string

text \<open>The stored state: one table for each model and one association table for each
  many-to-many relation, holding pairs (recipe id, tag or ingredient id).\<close>

record db =
  tags :: "entity list"
  ingredients :: "entity list"
  recipes :: "recipe list"
  recipe_tags :: "(nat \<times> nat) list"
  recipe_ingredient :: "(nat \<times> nat) list"

section \<open>The object-relational mapper\<close>

text \<open>
  The calls the serializers make on the framework's managers, with the framework's
  behaviour: every write is stored when it is made (no transaction is opened anywhere in
  the serializers), so an operation that raises returns the state as the writes before
  the exception left it.
\<close>

definition next_id :: "nat list \<Rightarrow> nat" where
  "next_id ids = Suc (fold max ids 0)"

definition entity_attr :: "entity \<Rightarrow> string \<Rightarrow> val option" where
  "entity_attr e k =
     (if k = ''id'' then Some (VInt (int (ent_id e)))
      else if k = ''name'' then Some (VStr (ent_name e))
      else None)"

text \<open>The rows a lookup \<open>filter(user=u, **kwargs)\<close> selects: every keyword is compared.\<close>

definition entity_matches :: "nat \<Rightarrow> dict \<Rightarrow> entity \<Rightarrow> bool" where
  "entity_matches u kwargs e =
     (ent_user e = u \<and> list_all (\<lambda>kv. entity_attr e (fst kv) = Some (snd kv)) kwargs)"

text \<open>A keyword of a lookup must name a column and carry a value of the column's type.\<close>

definition kwarg_ok :: "string \<times> val \<Rightarrow> bool" where
  "kwarg_ok kv =
     (case snd kv of
        VStr s \<Rightarrow> fst kv = ''name''
      | VInt i \<Rightarrow> fst kv = ''id'' \<and> 0 \<le> i
      | _ \<Rightarrow> False)"

text \<open>
  \<open>Model.objects.get_or_create(user=u, **kwargs)\<close>: the one row the lookup selects; a new
  row built from the keywords when it selects none (with the next free id unless the
  keywords give one); \<open>MultipleObjectsReturned\<close> when it selects several. The result is the
  object, the \<open>created\<close> flag and the table.
\<close>

definition get_or_create ::
  "nat \<Rightarrow> dict \<Rightarrow> entity list \<Rightarrow> error + (entity \<times> bool \<times> entity list)" where
  "get_or_create u kwargs tbl =
     (if \<not> list_all kwarg_ok kwargs then Inl FieldError
      else
        (case filter (entity_matches u kwargs) tbl of
           [] \<Rightarrow>
             (let e = \<lparr>ent_id = (case map_of kwargs ''id'' of
                                    Some (VInt i) \<Rightarrow> nat i
                                  | _ \<Rightarrow> next_id (map ent_id tbl)),
                       ent_user = u,
                       ent_name = (case map_of kwargs ''name'' of
                                      Some (VStr s) \<Rightarrow> s
                                    | _ \<Rightarrow> [])\<rparr>
              in if ent_id e \<in> set (map ent_id tbl) then Inl IntegrityError
                 else Inr (e, True, tbl @ [e]))
         | [e] \<Rightarrow> Inr (e, False, tbl)
         | _ \<Rightarrow> Inl MultipleObjectsReturned))"

text \<open>\<open>recipe.tags.add(obj)\<close> stores the pair unless it is stored already;
  \<open>recipe.tags.clear()\<close> deletes every pair of the recipe.\<close>

definition m2m_add :: "nat \<Rightarrow> nat \<Rightarrow> (nat \<times> nat) list \<Rightarrow> (nat \<times> nat) list" where
  "m2m_add rid oid assoc = (if (rid, oid) \<in> set assoc then assoc else assoc @ [(rid, oid)])"

definition m2m_clear :: "nat \<Rightarrow> (nat \<times> nat) list \<Rightarrow> (nat \<times> nat) list" where
  "m2m_clear rid assoc = filter (\<lambda>p. fst p \<noteq> rid) assoc"

text \<open>
  \<open>setattr(instance, attr, value)\<close> on a recipe object. An attribute that is not a column
  is set on the Python object only and never stored, so the row is unchanged; a value that
  is not of the column's type never reaches this point, since validation precedes it.
\<close>

definition setattr_recipe :: "recipe \<Rightarrow> string \<times> val \<Rightarrow> recipe" where
  "setattr_recipe r kv =
     (case kv of
        (k, VStr s) \<Rightarrow>
          (if k = ''title'' then r\<lparr>rec_title := s\<rparr>
           else if k = ''link'' then r\<lparr>rec_link := s\<rparr>
           else if k = ''description'' then r\<lparr>rec_description := s\<rparr>
           else if k = ''image'' then r\<lparr>rec_image := s\<rparr>
           else r)
      | (k, VInt i) \<Rightarrow>
          (if k = ''time_minutes'' then r\<lparr>rec_time_minutes := i\<rparr>
           else if k = ''user'' then r\<lparr>rec_user := nat i\<rparr>
           else if k = ''id'' then r\<lparr>rec_id := nat i\<rparr>
           else r)
      | (k, VDec p) \<Rightarrow> (if k = ''price'' then r\<lparr>rec_price := p\<rparr> else r)
      | _ \<Rightarrow> r)"

definition recipe_columns :: "string list" where
  "recipe_columns =
     [''id'', ''user'', ''title'', ''time_minutes'', ''price'', ''link'', ''description'',
      ''image'']"

text \<open>
  \<open>Recipe.objects.create(**kwargs)\<close>: a keyword that is not a column raises \<open>TypeError\<close>,
  a recipe without owner or with an id in use violates the table's constraints, and
  otherwise the new row is stored under the next free id.
\<close>

definition Recipe_objects_create :: "dict \<Rightarrow> db \<Rightarrow> db \<times> (error + recipe)" where
  "Recipe_objects_create kwargs st =
     (if \<not> list_all (\<lambda>kv. fst kv \<in> set recipe_columns) kwargs then (st, Inl TypeError)
      else if map_of kwargs ''user'' = None then (st, Inl IntegrityError)
      else
        (let r0 = \<lparr>rec_id = next_id (map rec_id (recipes st)), rec_user = 0,
                   rec_title = [], rec_time_minutes = 0, rec_price = 0, rec_link = [],
                   rec_description = [], rec_image = []\<rparr>;
             r = fold (\<lambda>kv r. setattr_recipe r kv) kwargs r0
         in if rec_id r \<in> set (map rec_id (recipes st)) then (st, Inl IntegrityError)
            else (st\<lparr>recipes := recipes st @ [r]\<rparr>, Inr r)))"

text \<open>\<open>instance.save()\<close>: the row of the instance's id is overwritten (inserted when the
  table has none).\<close>

definition save_recipe :: "recipe \<Rightarrow> db \<Rightarrow> db" where
  "save_recipe r st =
     (if rec_id r \<in> set (map rec_id (recipes st))
      then st\<lparr>recipes := map (\<lambda>x. if rec_id x = rec_id r then r else x) (recipes st)\<rparr>
      else st\<lparr>recipes := recipes st @ [r]\<rparr>)"

section \<open>The serializers of \<open>recipe/serializers.py\<close>\<close>

subsection \<open>Declared fields\<close>

definition IngredientSerializer_fields :: "string list" where
  "IngredientSerializer_fields = [''id'', ''name'']"

definition IngredientSerializer_read_only_fields :: "string list" where
  "IngredientSerializer_read_only_fields = [''id'']"

definition TagSerializer_fields :: "string list" where
  "TagSerializer_fields = [''id'', ''name'']"

definition TagSerializer_read_only_fields :: "string list" where
  "TagSerializer_read_only_fields = [''id'']"

definition RecipeSerializer_fields :: "string list" where
  "RecipeSerializer_fields =
     [''id'', ''title'', ''time_minutes'', ''price'', ''link'', ''tags'', ''ingredient'']"

definition RecipeSerializer_read_only_fields :: "string list" where
  "RecipeSerializer_read_only_fields = [''id'']"

definition RecipeDetailSerializer_fields :: "string list" where
  "RecipeDetailSerializer_fields = RecipeSerializer_fields @ [''description'']"

definition RecipeDetailSerializer_read_only_fields :: "string list" where
  "RecipeDetailSerializer_read_only_fields = RecipeSerializer_read_only_fields"

definition RecipeImageSerializer_fields :: "string list" where
  "RecipeImageSerializer_fields = [''id'', ''image'']"

definition RecipeImageSerializer_read_only_fields :: "string list" where
  "RecipeImageSerializer_read_only_fields = [''id'']"

subsection \<open>Nested get-or-create\<close>

text \<open>What a \<open>for\<close> loop iterates over: the items of a list, the characters of a string,
  the keys of a dictionary; any other value raises \<open>TypeError\<close>.\<close>

fun py_iter :: "val \<Rightarrow> error + val list" where
  "py_iter (VList xs) = Inr xs"
| "py_iter (VStr s) = Inr (map (\<lambda>c. VStr [c]) s)"
| "py_iter (VDict d) = Inr (map (\<lambda>kv. VStr (fst kv)) d)"
| "py_iter v = Inl TypeError"


text \<open>
  \<open>_get_or_create_ingredients(self, ingredients, recipe)\<close>; \<open>auth_user\<close> is
  \<open>self.context['request'].user\<close>. The loop stops at the first exception, and what the
  earlier rounds stored stays stored. An item that is not a dictionary cannot be unpacked
  by \<open>**\<close>.
\<close>

fun ingredients_loop :: "nat \<Rightarrow> val list \<Rightarrow> recipe \<Rightarrow> db \<Rightarrow> db \<times> (error + recipe)" where
  "ingredients_loop auth_user [] recipe st = (st, Inr recipe)"
| "ingredients_loop auth_user (ingredient # rest) recipe st =
     (case ingredient of
        VDict kwargs \<Rightarrow>
          (case get_or_create auth_user kwargs (ingredients st) of
             Inl e \<Rightarrow> (st, Inl e)
           | Inr (ingredient_obj, created, tbl) \<Rightarrow>
               ingredients_loop auth_user rest recipe
                 (st\<lparr>ingredients := tbl,
                     recipe_ingredient :=
                       m2m_add (rec_id recipe) (ent_id ingredient_obj) (recipe_ingredient st)\<rparr>))
      | _ \<Rightarrow> (st, Inl TypeError))"

definition get_or_create_ingredients ::
  "nat \<Rightarrow> val \<Rightarrow> recipe \<Rightarrow> db \<Rightarrow> db \<times> (error + recipe)" where
  "get_or_create_ingredients auth_user ingredients_arg recipe st =
     (case py_iter ingredients_arg of
        Inl e \<Rightarrow> (st, Inl e)
      | Inr items \<Rightarrow> ingredients_loop auth_user items recipe st)"

text \<open>\<open>_get_or_create_tags(self, tags, recipe)\<close>, which returns nothing.\<close>

fun tags_loop :: "nat \<Rightarrow> val list \<Rightarrow> recipe \<Rightarrow> db \<Rightarrow> db \<times> (error + unit)" where
  "tags_loop auth_user [] recipe st = (st, Inr ())"
| "tags_loop auth_user (tag # rest) recipe st =
     (case tag of
        VDict kwargs \<Rightarrow>
          (case get_or_create auth_user kwargs (tags st) of
             Inl e \<Rightarrow> (st, Inl e)
           | Inr (tag_obj, created, tbl) \<Rightarrow>
               tags_loop auth_user rest recipe
                 (st\<lparr>tags := tbl,
                     recipe_tags := m2m_add (rec_id recipe) (ent_id tag_obj) (recipe_tags st)\<rparr>))
      | _ \<Rightarrow> (st, Inl TypeError))"

definition get_or_create_tags :: "nat \<Rightarrow> val \<Rightarrow> recipe \<Rightarrow> db \<Rightarrow> db \<times> (error + unit)" where
  "get_or_create_tags auth_user tags_arg recipe st =
     (case py_iter tags_arg of
        Inl e \<Rightarrow> (st, Inl e)
      | Inr items \<Rightarrow> tags_loop auth_user items recipe st)"

subsection \<open>Create and update\<close>

text \<open>\<open>RecipeSerializer.create(self, validated_data)\<close>.\<close>

definition RecipeSerializer_create :: "nat \<Rightarrow> dict \<Rightarrow> db \<Rightarrow> db \<times> (error + recipe)" where
  "RecipeSerializer_create auth_user validated_data st =
     (let (tags_v, vd1) = dict_pop ''tags'' (VList []) validated_data;
          (ingredient_v, vd2) = dict_pop ''ingredient'' (VList []) vd1
      in case Recipe_objects_create vd2 st of
           (st1, Inl e) \<Rightarrow> (st1, Inl e)
         | (st1, Inr recipe) \<Rightarrow>
             (case get_or_create_tags auth_user tags_v recipe st1 of
                (st2, Inl e) \<Rightarrow> (st2, Inl e)
              | (st2, Inr u) \<Rightarrow>
                  (case get_or_create_ingredients auth_user ingredient_v recipe st2 of
                     (st3, Inl e) \<Rightarrow> (st3, Inl e)
                   | (st3, Inr r) \<Rightarrow> (st3, Inr recipe))))"

text \<open>
  \<open>RecipeSerializer.update(self, instance, validated_data)\<close>. Both relations are popped
  with the default \<open>[]\<close> and then compared with \<open>None\<close>.
\<close>

definition RecipeSerializer_update ::
  "nat \<Rightarrow> recipe \<Rightarrow> dict \<Rightarrow> db \<Rightarrow> db \<times> (error + recipe)" where
  "RecipeSerializer_update auth_user instance validated_data st =
     (let (tags_v, vd1) = dict_pop ''tags'' (VList []) validated_data;
          (ingredient_v, vd2) = dict_pop ''ingredient'' (VList []) vd1
      in case (if tags_v \<noteq> VNone
               then get_or_create_tags auth_user tags_v instance
                      (st\<lparr>recipe_tags := m2m_clear (rec_id instance) (recipe_tags st)\<rparr>)
               else (st, Inr ())) of
           (st1, Inl e) \<Rightarrow> (st1, Inl e)
         | (st1, Inr u) \<Rightarrow>
             (case (if ingredient_v \<noteq> VNone
                    then get_or_create_ingredients auth_user ingredient_v instance
                           (st1\<lparr>recipe_ingredient :=
                                  m2m_clear (rec_id instance) (recipe_ingredient st1)\<rparr>)
                    else (st1, Inr instance)) of
                (st2, Inl e) \<Rightarrow> (st2, Inl e)
              | (st2, Inr r) \<Rightarrow>
                  (let instance' = fold (\<lambda>kv r. setattr_recipe r kv) vd2 instance
                   in (save_recipe instance' st2, Inr instance'))))"

section \<open>Validation by the serializer framework\<close>

text \<open>
  What \<open>serializer.is_valid()\<close> does with the declarations above: only the declared fields
  that are not read-only are read from the payload, every other key of the payload is
  ignored, and \<open>validated_data\<close> holds the validated values in the order of the
  declaration. A field the payload lacks is skipped when the root serializer is partial
  (also inside a nested serializer) and otherwise fails when it is required.
\<close>

definition writable_fields :: "string list \<Rightarrow> string list \<Rightarrow> string list" where
  "writable_fields flds read_only = filter (\<lambda>f. f \<notin> set read_only) flds"

fun to_internal_value ::
  "(string \<Rightarrow> val \<Rightarrow> val option) \<Rightarrow> (string \<Rightarrow> bool) \<Rightarrow> bool \<Rightarrow> string list \<Rightarrow> dict
     \<Rightarrow> error + dict" where
  "to_internal_value vf req partial [] data = Inr []"
| "to_internal_value vf req partial (f # fs) data =
     (case map_of data f of
        None \<Rightarrow>
          (if req f \<and> \<not> partial then Inl ValidationError
           else to_internal_value vf req partial fs data)
      | Some v \<Rightarrow>
          (case vf f v of
             None \<Rightarrow> Inl ValidationError
           | Some v' \<Rightarrow>
               (case to_internal_value vf req partial fs data of
                  Inl e \<Rightarrow> Inl e
                | Inr d \<Rightarrow> Inr ((f, v') # d))))"

text \<open>The field classes: a character field strips surrounding whitespace and refuses a
  blank string unless blanks are allowed; only JSON strings and numbers are modelled as
  input, each for the field of its own type.\<close>

definition is_space :: "char \<Rightarrow> bool" where
  "is_space c = (c \<in> set [CHR '' '', CHR 0x09, CHR 0x0A, CHR 0x0B, CHR 0x0C, CHR 0x0D])"

definition strip :: "string \<Rightarrow> string" where
  "strip s = rev (dropWhile is_space (rev (dropWhile is_space s)))"

definition char_field :: "bool \<Rightarrow> val \<Rightarrow> val option" where
  "char_field allow_blank v =
     (case v of
        VStr s \<Rightarrow>
          (if strip s = [] then (if allow_blank then Some (VStr []) else None)
           else Some (VStr (strip s)))
      | _ \<Rightarrow> None)"

definition integer_field :: "val \<Rightarrow> val option" where
  "integer_field v = (case v of VInt i \<Rightarrow> Some (VInt i) | _ \<Rightarrow> None)"

definition decimal_field :: "val \<Rightarrow> val option" where
  "decimal_field v =
     (case v of VDec p \<Rightarrow> Some (VDec p) | VInt i \<Rightarrow> Some (VDec (100 * i)) | _ \<Rightarrow> None)"

text \<open>
  Modelled from the spec: the columns of the missing model classes. A tag or ingredient
  name is a required, non-empty string; of a recipe, title, time and price are required;
  link and description may be left out or blank.
\<close>

definition entity_field_validate :: "string \<Rightarrow> val \<Rightarrow> val option" where
  "entity_field_validate f v =
     (if f = ''name'' then char_field False v
      else if f = ''id'' then integer_field v
      else None)"

definition entity_required :: "string \<Rightarrow> bool" where
  "entity_required f = (f = ''name'')"

definition recipe_required :: "string \<Rightarrow> bool" where
  "recipe_required f = (f \<in> set [''title'', ''time_minutes'', ''price''])"

text \<open>\<open>TagSerializer\<close> and \<open>IngredientSerializer\<close> on one item of a nested list.\<close>

definition TagSerializer_run_validation :: "bool \<Rightarrow> val \<Rightarrow> error + dict" where
  "TagSerializer_run_validation partial data =
     (case data of
        VDict d \<Rightarrow>
          to_internal_value entity_field_validate entity_required partial
            (writable_fields TagSerializer_fields TagSerializer_read_only_fields) d
      | _ \<Rightarrow> Inl ValidationError)"

definition IngredientSerializer_run_validation :: "bool \<Rightarrow> val \<Rightarrow> error + dict" where
  "IngredientSerializer_run_validation partial data =
     (case data of
        VDict d \<Rightarrow>
          to_internal_value entity_field_validate entity_required partial
            (writable_fields IngredientSerializer_fields IngredientSerializer_read_only_fields) d
      | _ \<Rightarrow> Inl ValidationError)"

text \<open>A nested serializer with \<open>many = True\<close>: the value is a list and every item is
  validated by the child.\<close>

fun many_run_validation :: "(val \<Rightarrow> error + dict) \<Rightarrow> val list \<Rightarrow> error + val list" where
  "many_run_validation child [] = Inr []"
| "many_run_validation child (x # xs) =
     (case child x of
        Inl e \<Rightarrow> Inl e
      | Inr d \<Rightarrow>
          (case many_run_validation child xs of
             Inl e \<Rightarrow> Inl e
           | Inr ds \<Rightarrow> Inr (VDict d # ds)))"

definition list_field :: "(val \<Rightarrow> error + dict) \<Rightarrow> val \<Rightarrow> val option" where
  "list_field child v =
     (case v of
        VList items \<Rightarrow>
          (case many_run_validation child items of
             Inl e \<Rightarrow> None
           | Inr ds \<Rightarrow> Some (VList ds))
      | _ \<Rightarrow> None)"

text \<open>The fields a recipe serializer can declare: \<open>tags\<close> and \<open>ingredient\<close> are the nested
  serializers of the class body (\<open>many = True\<close>, \<open>required = False\<close>), the others are
  the model's columns.\<close>

definition recipe_field_validate :: "bool \<Rightarrow> string \<Rightarrow> val \<Rightarrow> val option" where
  "recipe_field_validate partial f v =
     (if f = ''tags'' then list_field (TagSerializer_run_validation partial) v
      else if f = ''ingredient'' then list_field (IngredientSerializer_run_validation partial) v
      else if f = ''title'' then char_field False v
      else if f = ''time_minutes'' then integer_field v
      else if f = ''price'' then decimal_field v
      else if f = ''link'' then char_field True v
      else if f = ''description'' then char_field True v
      else None)"

text \<open>\<open>is_valid\<close> of a recipe serializer class, given by its \<open>Meta.fields\<close> and
  \<open>Meta.read_only_fields\<close>.\<close>

definition recipe_is_valid :: "string list \<Rightarrow> string list \<Rightarrow> bool \<Rightarrow> dict \<Rightarrow> error + dict" where
  "recipe_is_valid flds read_only partial data =
     to_internal_value (recipe_field_validate partial) recipe_required partial
       (writable_fields flds read_only) data"

text \<open>\<open>serializer.is_valid(raise_exception=True)\<close> followed by \<open>serializer.save()\<close> on a
  serializer built with an instance, which calls \<open>update\<close>.\<close>

definition save_update ::
  "string list \<Rightarrow> string list \<Rightarrow> bool \<Rightarrow> nat \<Rightarrow> recipe \<Rightarrow> dict \<Rightarrow> db \<Rightarrow> db \<times> (error + recipe)" where
  "save_update flds read_only partial auth_user instance data st =
     (case recipe_is_valid flds read_only partial data of
        Inl e \<Rightarrow> (st, Inl e)
      | Inr validated_data \<Rightarrow> RecipeSerializer_update auth_user instance validated_data st)"

text \<open>The same without an instance, which calls \<open>create\<close>; the keywords of
  \<open>save(user=...)\<close> are added to the validated data, replacing what the data hold
  under the same keys.\<close>

definition save_create ::
  "string list \<Rightarrow> string list \<Rightarrow> nat \<Rightarrow> dict \<Rightarrow> dict \<Rightarrow> db \<Rightarrow> db \<times> (error + recipe)" where
  "save_create flds read_only auth_user data save_kwargs st =
     (case recipe_is_valid flds read_only False data of
        Inl e \<Rightarrow> (st, Inl e)
      | Inr validated_data \<Rightarrow>
          RecipeSerializer_create auth_user
            (filter (\<lambda>kv. fst kv \<notin> set (map fst save_kwargs)) validated_data @ save_kwargs) st)"

section \<open>The wire representation\<close>

text \<open>
  What \<open>serializer.data\<close> holds for an object: one key for every declared field, in the
  order of the declaration, a nested serializer with \<open>many = True\<close> giving the list of the
  related objects' representations.
\<close>

definition entity_to_representation :: "string list \<Rightarrow> entity \<Rightarrow> dict" where
  "entity_to_representation flds e =
     map (\<lambda>f. (f, (case entity_attr e f of Some v \<Rightarrow> v | None \<Rightarrow> VNone))) flds"

definition recipe_attr :: "recipe \<Rightarrow> string \<Rightarrow> val" where
  "recipe_attr r f =
     (if f = ''id'' then VInt (int (rec_id r))
      else if f = ''user'' then VInt (int (rec_user r))
      else if f = ''title'' then VStr (rec_title r)
      else if f = ''time_minutes'' then VInt (rec_time_minutes r)
      else if f = ''price'' then VDec (rec_price r)
      else if f = ''link'' then VStr (rec_link r)
      else if f = ''description'' then VStr (rec_description r)
      else if f = ''image'' then VStr (rec_image r)
      else VNone)"

text \<open>The objects a recipe is associated with.\<close>

definition related :: "(nat \<times> nat) list \<Rightarrow> nat \<Rightarrow> entity list \<Rightarrow> entity list" where
  "related assoc rid tbl = filter (\<lambda>e. (rid, ent_id e) \<in> set assoc) tbl"

definition recipe_to_representation :: "string list \<Rightarrow> db \<Rightarrow> recipe \<Rightarrow> dict" where
  "recipe_to_representation flds st r =
     map (\<lambda>f. (f,
            (if f = ''tags''
             then VList (map (\<lambda>e. VDict (entity_to_representation TagSerializer_fields e))
                          (related (recipe_tags st) (rec_id r) (tags st)))
             else if f = ''ingredient''
             then VList (map (\<lambda>e. VDict (entity_to_representation IngredientSerializer_fields e))
                          (related (recipe_ingredient st) (rec_id r) (ingredients st)))
             else recipe_attr r f))) flds"

section \<open>The API layer\<close>

text \<open>
  Modelled from the spec: the view classes of the recipe application (\<open>recipe/views.py\<close>,
  of which the sources hold only the tests) are missing. The spec's words: every operation
  is scoped to the entities whose user is the authenticated user; the recipe list is
  ordered by descending id and the tag and ingredient lists by descending name; \<open>tags\<close>
  and \<open>ingredients\<close> filter the recipe list to the recipes associated with at least one of
  the given ids, both filters together are conjoined, and the result is deduplicated;
  \<open>assigned_only\<close> filters the tag and ingredient lists to those associated with at least
  one recipe owned by the user, deduplicated; retrieve, update and delete by an id that
  does not exist or does not belong to the user answer not-found; delete removes the
  entity and its association rows. A list of ids is taken as parsed from its
  comma-separated form; names are ordered as lists of characters.
\<close>

text \<open>The rows of a join with an association table: a row once for every association
  pair that links it to one of the given ids.\<close>

definition join_recipe :: "(nat \<times> nat) list \<Rightarrow> nat list \<Rightarrow> recipe list \<Rightarrow> recipe list" where
  "join_recipe assoc ids rows =
     concat (map (\<lambda>r. map (\<lambda>p. r) (filter (\<lambda>p. fst p = rec_id r \<and> snd p \<in> set ids) assoc)) rows)"

definition join_entity :: "(nat \<times> nat) list \<Rightarrow> nat list \<Rightarrow> entity list \<Rightarrow> entity list" where
  "join_entity assoc rids rows =
     concat (map (\<lambda>e. map (\<lambda>p. e) (filter (\<lambda>p. snd p = ent_id e \<and> fst p \<in> set rids) assoc)) rows)"

definition recipe_queryset :: "nat \<Rightarrow> nat list option \<Rightarrow> nat list option \<Rightarrow> db \<Rightarrow> recipe list" where
  "recipe_queryset u tag_ids ingredient_ids st =
     (let q0 = recipes st;
          q1 = (case tag_ids of None \<Rightarrow> q0 | Some ids \<Rightarrow> join_recipe (recipe_tags st) ids q0);
          q2 = (case ingredient_ids of
                  None \<Rightarrow> q1
                | Some ids \<Rightarrow> join_recipe (recipe_ingredient st) ids q1)
      in remdups (rev (sort_key rec_id (filter (\<lambda>r. rec_user r = u) q2))))"

definition owned_recipe_ids :: "nat \<Rightarrow> db \<Rightarrow> nat list" where
  "owned_recipe_ids u st = map rec_id (filter (\<lambda>r. rec_user r = u) (recipes st))"

definition entity_queryset ::
  "nat \<Rightarrow> bool \<Rightarrow> entity list \<Rightarrow> (nat \<times> nat) list \<Rightarrow> nat list \<Rightarrow> entity list" where
  "entity_queryset u assigned_only tbl assoc owned =
     (let q = (if assigned_only then join_entity assoc owned tbl else tbl)
      in remdups (rev (sort_key ent_name (filter (\<lambda>e. ent_user e = u) q))))"


subsection \<open>Recipes\<close>

definition recipe_list :: "nat \<Rightarrow> nat list option \<Rightarrow> nat list option \<Rightarrow> db \<Rightarrow> recipe list" where
  "recipe_list u tag_ids ingredient_ids st = recipe_queryset u tag_ids ingredient_ids st"



definition recipe_create ::
  "string list \<Rightarrow> string list \<Rightarrow> nat \<Rightarrow> dict \<Rightarrow> db \<Rightarrow> db \<times> (error + recipe)" where
  "recipe_create flds read_only u data st =
     save_create flds read_only u data [(''user'', VInt (int u))] st"



subsection \<open>Tags and ingredients\<close>




definition tag_list :: "nat \<Rightarrow> bool \<Rightarrow> db \<Rightarrow> entity list" where
  "tag_list u assigned_only st =
     entity_queryset u assigned_only (tags st) (recipe_tags st) (owned_recipe_ids u st)"




definition ingredient_list :: "nat \<Rightarrow> bool \<Rightarrow> db \<Rightarrow> entity list" where
  "ingredient_list u assigned_only st =
     entity_queryset u assigned_only (ingredients st) (recipe_ingredient st)
       (owned_recipe_ids u st)"




section \<open>The properties, as predicates on the stored state\<close>

text \<open>The items validation can hand to the nested helpers: a dictionary that is empty or
  holds a name and nothing else.\<close>

definition validated_kwargs :: "dict \<Rightarrow> bool" where
  "validated_kwargs kw = (case kw of [] \<Rightarrow> True | [(k, VStr s)] \<Rightarrow> k = ''name'' | _ \<Rightarrow> False)"

definition validated_item :: "val \<Rightarrow> bool" where
  "validated_item v = (case v of VDict kw \<Rightarrow> validated_kwargs kw | _ \<Rightarrow> False)"






section \<open>Example data, from the tests\<close>

definition ex_recipe :: recipe where
  "ex_recipe =
     \<lparr>rec_id = 1, rec_user = 1, rec_title = ''Sample recipe'', rec_time_minutes = 10,
      rec_price = 550, rec_link = ''http://example.com/recipe'',
      rec_description = ''Sample recipe description'', rec_image = []\<rparr>"

text \<open>A recipe of user 1 with one tag and one ingredient.\<close>

definition ex_db :: db where
  "ex_db =
     \<lparr>tags = [\<lparr>ent_id = 1, ent_user = 1, ent_name = ''Dessert''\<rparr>],
      ingredients = [\<lparr>ent_id = 1, ent_user = 1, ent_name = ''Limes''\<rparr>],
      recipes = [ex_recipe], recipe_tags = [(1, 1)], recipe_ingredient = [(1, 1)]\<rparr>"




text \<open>User 1 with two tags, the recipe associated with the first.\<close>

definition ex_two_tags_db :: db where
  "ex_two_tags_db =
     \<lparr>tags = [\<lparr>ent_id = 1, ent_user = 1, ent_name = ''Dessert''\<rparr>,
              \<lparr>ent_id = 2, ent_user = 1, ent_name = ''Thai''\<rparr>],
      ingredients = [], recipes = [ex_recipe], recipe_tags = [(1, 1)], recipe_ingredient = []\<rparr>"



text \<open>The states of the filter tests in one: three recipes of user 1 and one of user 2.\<close>

definition ex_filter_db :: db where
  "ex_filter_db =
     \<lparr>tags = [\<lparr>ent_id = 1, ent_user = 1, ent_name = ''Tag 1''\<rparr>,
              \<lparr>ent_id = 2, ent_user = 1, ent_name = ''Tag 2''\<rparr>,
              \<lparr>ent_id = 3, ent_user = 1, ent_name = ''Tag 3''\<rparr>,
              \<lparr>ent_id = 4, ent_user = 2, ent_name = ''fruity''\<rparr>],
      ingredients = [\<lparr>ent_id = 1, ent_user = 1, ent_name = ''Feta Cheese''\<rparr>,
                     \<lparr>ent_id = 2, ent_user = 1, ent_name = ''Chicken''\<rparr>,
                     \<lparr>ent_id = 3, ent_user = 2, ent_name = ''Veggie''\<rparr>],
      recipes = [ex_recipe\<lparr>rec_title := ''Test Recipe 1''\<rparr>,
                 ex_recipe\<lparr>rec_id := 2, rec_title := ''Test Recipe 2''\<rparr>,
                 ex_recipe\<lparr>rec_id := 3, rec_title := ''Test Recipe 3''\<rparr>,
                 ex_recipe\<lparr>rec_id := 4, rec_user := 2\<rparr>],
      recipe_tags = [(1, 1), (1, 2), (2, 2), (4, 4)],
      recipe_ingredient = [(1, 1), (3, 1), (4, 3)]\<rparr>"


section \<open>Facts about the mapper calls\<close>

lemma fold_max_ge: "(x::nat) \<in> set xs \<Longrightarrow> x \<le> fold max xs a"
proof (induction xs arbitrary: a)
  case Nil then show ?case by simp
next
  case (Cons y ys)
  have mono: "\<And>b. b \<le> fold max ys b"
  proof -
    fix b show "b \<le> fold max ys b"
    proof (induction ys arbitrary: b)
      case Nil show ?case by simp
    next
      case (Cons z zs)
      have "b \<le> max z b" by simp
      also have "\<dots> \<le> fold max zs (max z b)" by (rule Cons.IH)
      finally show ?case by simp
    qed
  qed
  from Cons.prems have "x = y \<or> x \<in> set ys" by simp
  then show ?case
  proof
    assume "x = y"
    then have "x \<le> max y a" by simp
    also have "\<dots> \<le> fold max ys (max y a)" by (rule mono)
    finally show ?thesis by simp
  next
    assume "x \<in> set ys"
    then show ?thesis using Cons.IH by simp
  qed
qed

lemma next_id_fresh: "next_id ids \<notin> set ids"
proof
  assume "next_id ids \<in> set ids"
  then have "next_id ids \<le> fold max ids 0" by (rule fold_max_ge)
  then show False by (simp add: next_id_def)
qed

lemma next_id_fresh_ent: "x \<in> set tbl \<Longrightarrow> next_id (map ent_id tbl) \<noteq> ent_id x"
  using next_id_fresh [of "map ent_id tbl"] by auto

lemma validated_kwargs_cases:
  "validated_kwargs kw \<longleftrightarrow> kw = [] \<or> (\<exists>s. kw = [(''name'', VStr s)])"
  by (auto simp: validated_kwargs_def split: list.splits val.splits prod.splits)

lemma entity_matches_name [simp]:
  "entity_matches u [(''name'', VStr n)] e \<longleftrightarrow> ent_user e = u \<and> ent_name e = n"
  by (simp add: entity_matches_def entity_attr_def)

lemma entity_matches_nil [simp]: "entity_matches u [] e \<longleftrightarrow> ent_user e = u"
  by (simp add: entity_matches_def)




lemma get_or_create_error:
  "validated_kwargs kw \<Longrightarrow> get_or_create u kw tbl = Inl err \<Longrightarrow> err = MultipleObjectsReturned"
  unfolding get_or_create_def validated_kwargs_cases
  by (auto simp: Let_def kwarg_ok_def split: if_splits list.splits dest: next_id_fresh_ent)






lemma m2m_add_set: "set (m2m_add rid oid assoc) = insert (rid, oid) (set assoc)"
  by (auto simp: m2m_add_def)

lemma tags_loop_frame:
  "tags_loop u items r st = (st', res) \<Longrightarrow>
     ingredients st' = ingredients st \<and> recipes st' = recipes st \<and>
     recipe_ingredient st' = recipe_ingredient st"
proof (induction items arbitrary: st)
  case Nil then show ?case by simp
next
  case (Cons it items)
  then show ?case
    by (cases it; cases "get_or_create u (case it of VDict kw \<Rightarrow> kw | _ \<Rightarrow> []) (tags st)")
       (auto split: prod.splits)
qed



subsection \<open>Reuse of existing rows by the loops\<close>





lemma ingredients_loop_frame:
  "ingredients_loop u items r st = (st', res) \<Longrightarrow>
     tags st' = tags st \<and> recipes st' = recipes st \<and>
     recipe_tags st' = recipe_tags st"
proof (induction items arbitrary: st)
  case Nil then show ?case by simp
next
  case (Cons it items)
  then show ?case
    by (cases it; cases "get_or_create u (case it of VDict kw \<Rightarrow> kw | _ \<Rightarrow> []) (ingredients st)")
       (auto split: prod.splits)
qed




section \<open>The stages of create and update\<close>

lemma dict_pop_fst: "fst (dict_pop k dflt d) = (case map_of d k of None \<Rightarrow> dflt | Some v \<Rightarrow> v)"
  by (simp add: dict_pop_def split: option.splits)

lemma map_of_filter_other: "k' \<noteq> k \<Longrightarrow> map_of (filter (\<lambda>kv. fst kv \<noteq> k) d) k' = map_of d k'"
  by (induction d) auto

lemma dict_pop_snd_other: "k' \<noteq> k \<Longrightarrow> map_of (snd (dict_pop k dflt d)) k' = map_of d k'"
  by (simp add: dict_pop_def map_of_filter_other split: option.splits)

lemma dict_pop_ingredient_after_tags:
  "fst (dict_pop ''ingredient'' dflt (snd (dict_pop ''tags'' dflt' vd))) =
     fst (dict_pop ''ingredient'' dflt vd)"
  by (simp add: dict_pop_fst dict_pop_snd_other)



lemma save_recipe_frame:
  "tags (save_recipe r st) = tags st \<and> ingredients (save_recipe r st) = ingredients st \<and>
   recipe_tags (save_recipe r st) = recipe_tags st \<and>
   recipe_ingredient (save_recipe r st) = recipe_ingredient st"
  by (simp add: save_recipe_def)


lemma update_stages:
  assumes "RecipeSerializer_update u inst vd st = (st', res)"
  obtains
    (tags_failed) e where
      "(if fst (dict_pop ''tags'' (VList []) vd) \<noteq> VNone
        then get_or_create_tags u (fst (dict_pop ''tags'' (VList []) vd)) inst
               (st\<lparr>recipe_tags := m2m_clear (rec_id inst) (recipe_tags st)\<rparr>)
        else (st, Inr ())) = (st', Inl e)"
      "res = Inl e"
  | (ingredients_failed) st1 x e where
      "(if fst (dict_pop ''tags'' (VList []) vd) \<noteq> VNone
        then get_or_create_tags u (fst (dict_pop ''tags'' (VList []) vd)) inst
               (st\<lparr>recipe_tags := m2m_clear (rec_id inst) (recipe_tags st)\<rparr>)
        else (st, Inr ())) = (st1, Inr x)"
      "(if fst (dict_pop ''ingredient'' (VList []) vd) \<noteq> VNone
        then get_or_create_ingredients u (fst (dict_pop ''ingredient'' (VList []) vd)) inst
               (st1\<lparr>recipe_ingredient := m2m_clear (rec_id inst) (recipe_ingredient st1)\<rparr>)
        else (st1, Inr inst)) = (st', Inl e)"
      "res = Inl e"
  | (finished) st1 st2 x y where
      "(if fst (dict_pop ''tags'' (VList []) vd) \<noteq> VNone
        then get_or_create_tags u (fst (dict_pop ''tags'' (VList []) vd)) inst
               (st\<lparr>recipe_tags := m2m_clear (rec_id inst) (recipe_tags st)\<rparr>)
        else (st, Inr ())) = (st1, Inr x)"
      "(if fst (dict_pop ''ingredient'' (VList []) vd) \<noteq> VNone
        then get_or_create_ingredients u (fst (dict_pop ''ingredient'' (VList []) vd)) inst
               (st1\<lparr>recipe_ingredient := m2m_clear (rec_id inst) (recipe_ingredient st1)\<rparr>)
        else (st1, Inr inst)) = (st2, Inr y)"
      "st' = save_recipe (fold (\<lambda>kv r. setattr_recipe r kv)
                (snd (dict_pop ''ingredient'' (VList []) (snd (dict_pop ''tags'' (VList []) vd)))) inst) st2"
      "res = Inr (fold (\<lambda>kv r. setattr_recipe r kv)
                (snd (dict_pop ''ingredient'' (VList []) (snd (dict_pop ''tags'' (VList []) vd)))) inst)"
proof -
  let ?tv = "fst (dict_pop ''tags'' (VList []) vd)"
  let ?iv = "fst (dict_pop ''ingredient'' (VList []) vd)"
  let ?s1 = "if ?tv \<noteq> VNone
        then get_or_create_tags u ?tv inst (st\<lparr>recipe_tags := m2m_clear (rec_id inst) (recipe_tags st)\<rparr>)
        else (st, Inr ())"
  obtain st1 res1 where s1: "?s1 = (st1, res1)" by (cases ?s1) auto
  show thesis
  proof (cases res1)
    case (Inl e)
    with s1 assms show thesis
      by (intro tags_failed [of e])
         (auto simp: RecipeSerializer_update_def split: prod.splits if_splits)
  next
    case (Inr x)
    note r1 = this
    let ?s2 = "if ?iv \<noteq> VNone
        then get_or_create_ingredients u ?iv inst
               (st1\<lparr>recipe_ingredient := m2m_clear (rec_id inst) (recipe_ingredient st1)\<rparr>)
        else (st1, Inr inst)"
    obtain st2 res2 where s2: "?s2 = (st2, res2)" by (cases ?s2) auto
    have iv: "fst (dict_pop ''ingredient'' (VList []) (snd (dict_pop ''tags'' (VList []) vd))) = ?iv"
      by (rule dict_pop_ingredient_after_tags)
    show thesis
    proof (cases res2)
      case (Inl e)
      with s1 r1 s2 iv assms show thesis
        by (intro ingredients_failed [of st1 x e])
           (auto simp: RecipeSerializer_update_def Let_def split: prod.splits if_splits)
    next
      case (Inr y)
      with s1 r1 s2 iv assms show thesis
        by (intro finished [of st1 x st2 y])
           (auto simp: RecipeSerializer_update_def Let_def split: prod.splits if_splits)
    qed
  qed
qed



section \<open>Nested get-or-create reuses existing rows\<close>



section \<open>Facts about validation\<close>


lemma to_internal_value_cong:
  "(\<forall>f \<in> set fs. map_of d f = map_of d' f) \<Longrightarrow>
     to_internal_value vf req p fs d = to_internal_value vf req p fs d'"
proof (induction fs)
  case Nil show ?case by simp
next
  case (Cons f fs)
  then have ih: "to_internal_value vf req p fs d = to_internal_value vf req p fs d'"
    and hd: "map_of d f = map_of d' f" by simp_all
  show ?case by (simp only: to_internal_value.simps ih hd)
qed

lemma to_internal_value_keys:
  "to_internal_value vf req p fs d = Inr vd \<Longrightarrow> \<forall>kv \<in> set vd. fst kv \<in> set fs"
proof (induction fs arbitrary: vd)
  case Nil then show ?case by simp
next
  case (Cons f fs)
  show ?case
  proof (cases "to_internal_value vf req p fs d")
    case (Inl e)
    with Cons.prems show ?thesis by (simp split: option.splits if_splits)
  next
    case (Inr vd')
    from Cons.IH [OF Inr] have "\<forall>kv \<in> set vd'. fst kv \<in> set fs" .
    with Cons.prems Inr show ?thesis
      by (auto split: option.splits if_splits)
  qed
qed


section \<open>The wire fields of the recipe serializers\<close>

text \<open>
  Claim C9, amended. The representation of a recipe by \<open>RecipeSerializer\<close> has exactly the
  keys \<open>id\<close>, \<open>title\<close>, \<open>time_minutes\<close>, \<open>price\<close>, \<open>link\<close>, \<open>tags\<close> and \<open>ingredient\<close>
  (the relation to the ingredients is named in the singular), the detail serializer adds
  \<open>description\<close>, and \<open>id\<close> is the one field that is never read from a payload.
\<close>

theorem C9_wire_fields:
  "map fst (recipe_to_representation RecipeSerializer_fields st r) =
     [''id'', ''title'', ''time_minutes'', ''price'', ''link'', ''tags'', ''ingredient''] \<and>
   map fst (recipe_to_representation RecipeDetailSerializer_fields st r) =
     [''id'', ''title'', ''time_minutes'', ''price'', ''link'', ''tags'', ''ingredient'',
      ''description''] \<and>
   writable_fields RecipeSerializer_fields RecipeSerializer_read_only_fields =
     [''title'', ''time_minutes'', ''price'', ''link'', ''tags'', ''ingredient''] \<and>
   writable_fields RecipeDetailSerializer_fields RecipeDetailSerializer_read_only_fields =
     [''title'', ''time_minutes'', ''price'', ''link'', ''tags'', ''ingredient'', ''description'']"
  by (simp add: recipe_to_representation_def RecipeSerializer_fields_def
      RecipeDetailSerializer_fields_def writable_fields_def RecipeSerializer_read_only_fields_def
      RecipeDetailSerializer_read_only_fields_def)

text \<open>The representation of the example recipe.\<close>

theorem C9_wire_fields_witness:
  "recipe_to_representation RecipeDetailSerializer_fields ex_db ex_recipe =
     [(''id'', VInt 1), (''title'', VStr ''Sample recipe''), (''time_minutes'', VInt 10),
      (''price'', VDec 550), (''link'', VStr ''http://example.com/recipe''),
      (''tags'', VList [VDict [(''id'', VInt 1), (''name'', VStr ''Dessert'')]]),
      (''ingredient'', VList [VDict [(''id'', VInt 1), (''name'', VStr ''Limes'')]]),
      (''description'', VStr ''Sample recipe description'')] \<and>
   map fst (recipe_to_representation RecipeSerializer_fields ex_db ex_recipe) =
     [''id'', ''title'', ''time_minutes'', ''price'', ''link'', ''tags'', ''ingredient'']"
proof -
  have "recipe_to_representation RecipeDetailSerializer_fields ex_db ex_recipe =
     [(''id'', VInt 1), (''title'', VStr ''Sample recipe''), (''time_minutes'', VInt 10),
      (''price'', VDec 550), (''link'', VStr ''http://example.com/recipe''),
      (''tags'', VList [VDict [(''id'', VInt 1), (''name'', VStr ''Dessert'')]]),
      (''ingredient'', VList [VDict [(''id'', VInt 1), (''name'', VStr ''Limes'')]]),
      (''description'', VStr ''Sample recipe description'')]"
    by code_simp
  with C9_wire_fields [of ex_db ex_recipe] show ?thesis by blast
qed

text \<open>
  The field set of claim C9 as the spec words it, with the key \<open>ingredients\<close>, is not the
  field set of the serializer.
\<close>

theorem C9_ingredients_key_counterexample:
  "set (map fst (recipe_to_representation RecipeSerializer_fields ex_db ex_recipe)) \<noteq>
     {''id'', ''title'', ''time_minutes'', ''price'', ''link'', ''tags'', ''ingredients''}"
proof
  assume "set (map fst (recipe_to_representation RecipeSerializer_fields ex_db ex_recipe)) =
     {''id'', ''title'', ''time_minutes'', ''price'', ''link'', ''tags'', ''ingredients''}"
  then have "''ingredients'' \<in> set (map fst (recipe_to_representation RecipeSerializer_fields ex_db ex_recipe))"
    by simp
  then show False
    by (simp add: recipe_to_representation_def RecipeSerializer_fields_def)
qed

section \<open>Update without a relation key\<close>

text \<open>
  Claim C1 says that an update whose payload lacks \<open>tags\<close> (or the ingredient key) leaves
  that relation as it was. The code pops both keys with the default \<open>[]\<close> and then tests
  for \<open>None\<close>, so the test never fails: the partial update of the title alone, as in
  \<open>test_partial_update\<close>, deletes every tag and ingredient association of the recipe.
\<close>

theorem C1_absent_keys_clear_relations:
  "save_update RecipeDetailSerializer_fields RecipeDetailSerializer_read_only_fields True 1
     ex_recipe [(''title'', VStr ''New Recipe Title'')] ex_db =
   (ex_db\<lparr>recipes := [ex_recipe\<lparr>rec_title := ''New Recipe Title''\<rparr>],
          recipe_tags := [], recipe_ingredient := []\<rparr>,
    Inr (ex_recipe\<lparr>rec_title := ''New Recipe Title''\<rparr>))"
  by code_simp


section \<open>Clearing the tags of a recipe\<close>

lemma get_or_create_tags_frame:
  "get_or_create_tags u v r st = (st', res) \<Longrightarrow>
     ingredients st' = ingredients st \<and> recipes st' = recipes st \<and>
     recipe_ingredient st' = recipe_ingredient st"
  by (cases v) (auto simp: get_or_create_tags_def dest: tags_loop_frame)

lemma get_or_create_ingredients_frame:
  "get_or_create_ingredients u v r st = (st', res) \<Longrightarrow>
     tags st' = tags st \<and> recipes st' = recipes st \<and> recipe_tags st' = recipe_tags st"
  by (cases v) (auto simp: get_or_create_ingredients_def dest: ingredients_loop_frame)

lemma m2m_clear_none: "filter (\<lambda>p. fst p = rid) (m2m_clear rid assoc) = []"
  by (induction assoc) (auto simp: m2m_clear_def)

lemma related_clear: "related (m2m_clear rid assoc) rid tbl = []"
  by (auto simp: related_def m2m_clear_def filter_empty_conv)

text \<open>
  Claim C3. An update whose validated data hold the empty list under \<open>tags\<close> leaves the
  recipe without any tag association, whether or not the later steps of the update succeed,
  and the table of tags is what it was: every tag row still exists, unmodified.
\<close>

theorem C3_empty_tags_clear:
  assumes "map_of validated_data ''tags'' = Some (VList [])"
  shows "(case RecipeSerializer_update u instance validated_data st of
            (st', res) \<Rightarrow>
              recipe_tags st' = m2m_clear (rec_id instance) (recipe_tags st) \<and>
              filter (\<lambda>p. fst p = rec_id instance) (recipe_tags st') = [] \<and>
              related (recipe_tags st') (rec_id instance) (tags st') = [] \<and>
              tags st' = tags st)"
proof -
  obtain st' res where run: "RecipeSerializer_update u instance validated_data st = (st', res)"
    by (cases "RecipeSerializer_update u instance validated_data st") auto
  from assms have T: "fst (dict_pop ''tags'' (VList []) validated_data) = VList []"
    by (simp add: dict_pop_fst)
  let ?st1 = "st\<lparr>recipe_tags := m2m_clear (rec_id instance) (recipe_tags st)\<rparr>"
  have s1: "(if fst (dict_pop ''tags'' (VList []) validated_data) \<noteq> VNone
        then get_or_create_tags u (fst (dict_pop ''tags'' (VList []) validated_data)) instance ?st1
        else (st, Inr ())) = (?st1, Inr ())"
    by (simp add: T get_or_create_tags_def)
  have "recipe_tags st' = recipe_tags ?st1 \<and> tags st' = tags ?st1"
    using run
  proof (cases rule: update_stages)
    case (tags_failed e)
    with s1 show ?thesis by simp
  next
    case (ingredients_failed st1 x e)
    from ingredients_failed(1) s1 have "st1 = ?st1" by simp
    with ingredients_failed(2) show ?thesis
      by (auto split: if_splits dest: get_or_create_ingredients_frame)
  next
    case (finished st1 st2 x y)
    from finished(1) s1 have "st1 = ?st1" by simp
    with finished(2) have "recipe_tags st2 = recipe_tags ?st1 \<and> tags st2 = tags ?st1"
      by (auto split: if_splits dest: get_or_create_ingredients_frame)
    with finished(3) show ?thesis by (simp add: save_recipe_frame)
  qed
  with run show ?thesis by (simp add: m2m_clear_none related_clear)
qed

text \<open>The payload of \<open>test_clear_recipe_tags\<close> on the example recipe.\<close>

theorem C3_empty_tags_clear_witness:
  "map_of [(''tags'', VList [])] ''tags'' = Some (VList []) \<and>
   recipe_tags (fst (RecipeSerializer_update 1 ex_recipe [(''tags'', VList [])] ex_db)) = [] \<and>
   tags (fst (RecipeSerializer_update 1 ex_recipe [(''tags'', VList [])] ex_db)) =
     [\<lparr>ent_id = 1, ent_user = 1, ent_name = ''Dessert''\<rparr>] \<and>
   related (recipe_tags (fst (RecipeSerializer_update 1 ex_recipe [(''tags'', VList [])] ex_db)))
     (rec_id ex_recipe)
     (tags (fst (RecipeSerializer_update 1 ex_recipe [(''tags'', VList [])] ex_db))) = []"
proof -
  have h: "map_of [(''tags'', VList [])] ''tags'' = Some (VList [])" by simp
  have e1: "recipe_tags (fst (RecipeSerializer_update 1 ex_recipe [(''tags'', VList [])] ex_db)) = []"
    by code_simp
  have e2: "tags (fst (RecipeSerializer_update 1 ex_recipe [(''tags'', VList [])] ex_db)) =
     [\<lparr>ent_id = 1, ent_user = 1, ent_name = ''Dessert''\<rparr>]" by code_simp
  from C3_empty_tags_clear [OF h, of ex_recipe ex_db 1]
  have "related (recipe_tags (fst (RecipeSerializer_update 1 ex_recipe [(''tags'', VList [])] ex_db)))
     (rec_id ex_recipe)
     (tags (fst (RecipeSerializer_update 1 ex_recipe [(''tags'', VList [])] ex_db))) = []"
    by (cases "RecipeSerializer_update 1 ex_recipe [(''tags'', VList [])] ex_db") auto
  with h e1 e2 show ?thesis by blast
qed

section \<open>The owner of a recipe is not a field\<close>


lemma setattr_recipe_owner:
  "fst kv \<noteq> ''user'' \<Longrightarrow> fst kv \<noteq> ''id'' \<Longrightarrow>
     rec_user (setattr_recipe r kv) = rec_user r \<and> rec_id (setattr_recipe r kv) = rec_id r"
  by (cases kv) (auto simp: setattr_recipe_def split: val.splits)

lemma fold_setattr_owner:
  "\<forall>kv \<in> set vd. fst kv \<noteq> ''user'' \<and> fst kv \<noteq> ''id'' \<Longrightarrow>
     rec_user (fold (\<lambda>kv r. setattr_recipe r kv) vd r) = rec_user r \<and>
     rec_id (fold (\<lambda>kv r. setattr_recipe r kv) vd r) = rec_id r"
proof (induction vd arbitrary: r)
  case Nil show ?case by simp
next
  case (Cons kv vd)
  from Cons.prems have "fst kv \<noteq> ''user''" "fst kv \<noteq> ''id''" by simp_all
  from setattr_recipe_owner [OF this] Cons.IH [of "setattr_recipe r kv"] Cons.prems
  show ?case by simp
qed

lemma dict_pop_snd_subset: "set (snd (dict_pop k dflt d)) \<subseteq> set d"
  by (auto simp: dict_pop_def split: option.splits)

lemma save_recipe_owners:
  assumes "distinct (map rec_id (recipes st))" "r \<in> set (recipes st)"
    "rec_id r' = rec_id r" "rec_user r' = rec_user r"
  shows "map (\<lambda>x. (rec_id x, rec_user x)) (recipes (save_recipe r' st)) =
         map (\<lambda>x. (rec_id x, rec_user x)) (recipes st)"
proof -
  have "rec_id r' \<in> set (map rec_id (recipes st))" using assms(2,3) by force
  then have "recipes (save_recipe r' st) =
      map (\<lambda>x. if rec_id x = rec_id r' then r' else x) (recipes st)"
    by (simp add: save_recipe_def)
  moreover have "x = r" if "x \<in> set (recipes st)" "rec_id x = rec_id r" for x
  proof -
    from assms(1) have "inj_on rec_id (set (recipes st))" by (simp add: distinct_map)
    with that assms(2) show ?thesis by (auto dest: inj_onD)
  qed
  ultimately show ?thesis using assms(3,4) by (auto simp: map_eq_conv)
qed

lemma save_update_owner:
  assumes nu: "''user'' \<notin> set flds" and ro: "''id'' \<in> set read_only"
    and run: "save_update flds read_only partial u inst data st = (st', res)"
  shows "(recipes st' = recipes st \<and> (\<exists>e. res = Inl e)) \<or>
         (\<exists>r'. rec_id r' = rec_id inst \<and> rec_user r' = rec_user inst \<and>
               recipes st' = recipes (save_recipe r' st) \<and> res = Inr r')"
proof (cases "recipe_is_valid flds read_only partial data")
  case (Inl e)
  with run show ?thesis by (auto simp: save_update_def)
next
  case (Inr vd)
  with run have up: "RecipeSerializer_update u inst vd st = (st', res)"
    by (simp add: save_update_def)
  from Inr have "\<forall>kv \<in> set vd. fst kv \<in> set (writable_fields flds read_only)"
    unfolding recipe_is_valid_def by (rule to_internal_value_keys)
  with nu ro have keys: "\<forall>kv \<in> set vd. fst kv \<noteq> ''user'' \<and> fst kv \<noteq> ''id''"
    by (auto simp: writable_fields_def)
  let ?vd2 = "snd (dict_pop ''ingredient'' (VList []) (snd (dict_pop ''tags'' (VList []) vd)))"
  have "set ?vd2 \<subseteq> set vd"
    using dict_pop_snd_subset [of "''ingredient''" "VList []" "snd (dict_pop ''tags'' (VList []) vd)"]
      dict_pop_snd_subset [of "''tags''" "VList []" vd] by blast
  with keys have keys2: "\<forall>kv \<in> set ?vd2. fst kv \<noteq> ''user'' \<and> fst kv \<noteq> ''id''" by blast
  note own = fold_setattr_owner [OF keys2, of inst]
  from up show ?thesis
  proof (cases rule: update_stages)
    case (tags_failed e)
    then have "recipes st' = recipes st"
      by (auto split: if_splits dest: get_or_create_tags_frame)
    with tags_failed(2) show ?thesis by simp
  next
    case (ingredients_failed st1 x e)
    then have "recipes st' = recipes st"
      by (auto split: if_splits dest!: get_or_create_tags_frame get_or_create_ingredients_frame)
    with ingredients_failed(3) show ?thesis by simp
  next
    case (finished st1 st2 x y)
    then have r2: "recipes st2 = recipes st"
      by (auto split: if_splits dest!: get_or_create_tags_frame get_or_create_ingredients_frame)
    have "recipes (save_recipe r' st2) = recipes (save_recipe r' st)" for r'
      using r2 by (simp add: save_recipe_def)
    with finished(3,4) own show ?thesis by auto
  qed
qed

lemma recipe_is_valid_ignores:
  assumes "k \<notin> set flds"
  shows "recipe_is_valid flds read_only partial (filter (\<lambda>kv. fst kv \<noteq> k) data) =
         recipe_is_valid flds read_only partial data"
  unfolding recipe_is_valid_def
proof (rule to_internal_value_cong)
  show "\<forall>f\<in>set (writable_fields flds read_only).
       map_of (filter (\<lambda>kv. fst kv \<noteq> k) data) f = map_of data f"
  proof
    fix f assume "f \<in> set (writable_fields flds read_only)"
    with assms have "f \<noteq> k" by (auto simp: writable_fields_def)
    then show "map_of (filter (\<lambda>kv. fst kv \<noteq> k) data) f = map_of data f"
      by (rule map_of_filter_other)
  qed
qed

text \<open>
  Claim C4. Neither recipe serializer declares \<open>user\<close>, so a \<open>user\<close> key of the payload is
  dropped by validation: an update request gives the same result and the same stored state
  with the key as without it, and after the request, whether it succeeds or fails, every
  stored recipe has the owner it had before.
\<close>

theorem C4_owner_unchanged:
  assumes "flds = RecipeSerializer_fields \<or> flds = RecipeDetailSerializer_fields"
    and "distinct (map rec_id (recipes st))"
    and "inst \<in> set (recipes st)"
  shows "save_update flds RecipeSerializer_read_only_fields partial u inst data st =
           save_update flds RecipeSerializer_read_only_fields partial u inst
             (filter (\<lambda>kv. fst kv \<noteq> ''user'') data) st \<and>
         (case save_update flds RecipeSerializer_read_only_fields partial u inst data st of
            (st', res) \<Rightarrow>
              map (\<lambda>x. (rec_id x, rec_user x)) (recipes st') =
                map (\<lambda>x. (rec_id x, rec_user x)) (recipes st) \<and>
              (case res of Inl e \<Rightarrow> True | Inr r \<Rightarrow> rec_user r = rec_user inst))"
proof -
  from assms(1) have nu: "''user'' \<notin> set flds"
    by (auto simp: RecipeSerializer_fields_def RecipeDetailSerializer_fields_def)
  have ro: "''id'' \<in> set RecipeSerializer_read_only_fields"
    by (simp add: RecipeSerializer_read_only_fields_def)
  have same: "save_update flds RecipeSerializer_read_only_fields partial u inst data st =
           save_update flds RecipeSerializer_read_only_fields partial u inst
             (filter (\<lambda>kv. fst kv \<noteq> ''user'') data) st"
    by (simp add: save_update_def recipe_is_valid_ignores [OF nu])
  obtain st' res where
    run: "save_update flds RecipeSerializer_read_only_fields partial u inst data st = (st', res)"
    by (cases "save_update flds RecipeSerializer_read_only_fields partial u inst data st") auto
  from save_update_owner [OF nu ro run]
  have fact: "map (\<lambda>x. (rec_id x, rec_user x)) (recipes st') =
          map (\<lambda>x. (rec_id x, rec_user x)) (recipes st) \<and>
        (case res of Inl e \<Rightarrow> True | Inr r \<Rightarrow> rec_user r = rec_user inst)"
  proof
    assume "recipes st' = recipes st \<and> (\<exists>e. res = Inl e)"
    then show ?thesis by auto
  next
    assume "\<exists>r'. rec_id r' = rec_id inst \<and> rec_user r' = rec_user inst \<and>
               recipes st' = recipes (save_recipe r' st) \<and> res = Inr r'"
    then obtain r' where r': "rec_id r' = rec_id inst" "rec_user r' = rec_user inst"
      "recipes st' = recipes (save_recipe r' st)" "res = Inr r'" by blast
    from save_recipe_owners [OF assms(2,3) r'(1,2)] r'(3,4,2) show ?thesis by simp
  qed
  have main: "(case save_update flds RecipeSerializer_read_only_fields partial u inst data st of
            (st', res) \<Rightarrow>
              map (\<lambda>x. (rec_id x, rec_user x)) (recipes st') =
                map (\<lambda>x. (rec_id x, rec_user x)) (recipes st) \<and>
              (case res of Inl e \<Rightarrow> True | Inr r \<Rightarrow> rec_user r = rec_user inst))"
    unfolding run using fact by simp
  from same main show ?thesis by (rule conjI)
qed

text \<open>The request of \<open>test_update_user_returns_error\<close>: it succeeds and changes no owner.\<close>

theorem C4_owner_unchanged_witness:
  "(RecipeDetailSerializer_fields = RecipeSerializer_fields \<or>
    RecipeDetailSerializer_fields = RecipeDetailSerializer_fields) \<and>
   distinct (map rec_id (recipes ex_db)) \<and>
   ex_recipe \<in> set (recipes ex_db) \<and>
   save_update RecipeDetailSerializer_fields RecipeSerializer_read_only_fields True 1 ex_recipe
     [(''user'', VInt 2)] ex_db =
   save_update RecipeDetailSerializer_fields RecipeSerializer_read_only_fields True 1 ex_recipe
     [] ex_db \<and>
   snd (save_update RecipeDetailSerializer_fields RecipeSerializer_read_only_fields True 1
          ex_recipe [(''user'', VInt 2)] ex_db) = Inr ex_recipe \<and>
   map (\<lambda>x. (rec_id x, rec_user x))
     (recipes (fst (save_update RecipeDetailSerializer_fields RecipeSerializer_read_only_fields
                      True 1 ex_recipe [(''user'', VInt 2)] ex_db))) = [(1, 1)]"
proof -
  have h1: "RecipeDetailSerializer_fields = RecipeSerializer_fields \<or>
    RecipeDetailSerializer_fields = RecipeDetailSerializer_fields" by simp
  have h2: "distinct (map rec_id (recipes ex_db))" by code_simp
  have h3: "ex_recipe \<in> set (recipes ex_db)" by (simp add: ex_db_def)
  have e1: "snd (save_update RecipeDetailSerializer_fields RecipeSerializer_read_only_fields True 1
          ex_recipe [(''user'', VInt 2)] ex_db) = Inr ex_recipe" by code_simp
  have e2: "map (\<lambda>x. (rec_id x, rec_user x)) (recipes ex_db) = [(1, 1)]" by code_simp
  have e3: "filter (\<lambda>kv. fst kv \<noteq> ''user'') [(''user'', VInt 2)] = []" by simp
  from C4_owner_unchanged [OF h1 h2 h3, of True 1 "[(''user'', VInt 2)]"]
  have "save_update RecipeDetailSerializer_fields RecipeSerializer_read_only_fields True 1 ex_recipe
     [(''user'', VInt 2)] ex_db =
   save_update RecipeDetailSerializer_fields RecipeSerializer_read_only_fields True 1 ex_recipe
     [] ex_db"
    and "map (\<lambda>x. (rec_id x, rec_user x))
     (recipes (fst (save_update RecipeDetailSerializer_fields RecipeSerializer_read_only_fields
                      True 1 ex_recipe [(''user'', VInt 2)] ex_db))) = [(1, 1)]"
    unfolding e3 e2 by (auto split: prod.splits)
  with h1 h2 h3 e1 show ?thesis by blast
qed

section \<open>What of a nested item reaches the lookup\<close>


lemma entity_run_validation_name:
  "to_internal_value entity_field_validate entity_required partial [''name''] d =
     (case map_of d ''name'' of
        None \<Rightarrow> if partial then Inr [] else Inl ValidationError
      | Some v \<Rightarrow>
          (case char_field False v of
             None \<Rightarrow> Inl ValidationError
           | Some v' \<Rightarrow> Inr [(''name'', v')]))"
  by (simp add: entity_field_validate_def entity_required_def split: option.splits)

lemma TagSerializer_run_validation_eq:
  "TagSerializer_run_validation partial (VDict d) =
     to_internal_value entity_field_validate entity_required partial [''name''] d"
  by (simp add: TagSerializer_run_validation_def writable_fields_def TagSerializer_fields_def
      TagSerializer_read_only_fields_def)



lemma char_field_VStr: "char_field b v = Some v' \<Longrightarrow> \<exists>s. v' = VStr s"
  by (auto simp: char_field_def split: val.splits if_splits)

lemma entity_validation_shape:
  assumes "to_internal_value entity_field_validate entity_required partial [''name''] d = Inr kw"
  shows "(\<exists>s. kw = [(''name'', VStr s)]) \<or> (partial \<and> map_of d ''name'' = None \<and> kw = [])"
  using assms unfolding entity_run_validation_name
  by (auto split: option.splits if_splits dest: char_field_VStr)




lemma many_validated:
  "many_run_validation (TagSerializer_run_validation partial) items = Inr ds \<Longrightarrow>
     list_all validated_item ds"
proof (induction items arbitrary: ds)
  case Nil then show ?case by simp
next
  case (Cons it items)
  from Cons.prems obtain kw ds' where
    kw: "TagSerializer_run_validation partial it = Inr kw"
    and ds': "many_run_validation (TagSerializer_run_validation partial) items = Inr ds'"
    and ds: "ds = VDict kw # ds'"
    by (auto split: sum.splits)
  from kw obtain d where "it = VDict d"
    by (cases it) (auto simp: TagSerializer_run_validation_def)
  with kw have "validated_kwargs kw"
    using entity_validation_shape [of partial d kw]
    by (auto simp: TagSerializer_run_validation_eq validated_kwargs_cases)
  with Cons.IH [OF ds'] ds show ?case by (simp add: validated_item_def)
qed




section \<open>Failure in the middle of a create or an update\<close>

















text \<open>
  The same on an update, without any duplicate: with two tags of the user, a partial update
  with a nameless tag item raises after the recipe's tag associations have been deleted,
  and before the new title is saved.
\<close>

lemma partial_update_fails_midway:
  "save_update RecipeDetailSerializer_fields RecipeDetailSerializer_read_only_fields True 1
     ex_recipe [(''title'', VStr ''New Recipe Title''), (''tags'', VList [VDict []])]
     ex_two_tags_db =
   (ex_two_tags_db\<lparr>recipe_tags := []\<rparr>, Inl MultipleObjectsReturned)"
  by code_simp

section \<open>The API layer: scoping and filters\<close>

lemma set_join_recipe:
  "set (join_recipe assoc ids rows) =
     {r \<in> set rows. \<exists>t \<in> set ids. (rec_id r, t) \<in> set assoc}"
proof -
  have "(\<exists>p \<in> set assoc. fst p = k \<and> snd p \<in> set ids) \<longleftrightarrow>
        (\<exists>t \<in> set ids. (k, t) \<in> set assoc)" for k
    by force
  then show ?thesis
    by (auto simp: join_recipe_def image_constant_conv split: if_splits)
qed

lemma set_join_entity:
  "set (join_entity assoc rids rows) =
     {e \<in> set rows. \<exists>rid \<in> set rids. (rid, ent_id e) \<in> set assoc}"
proof -
  have "(\<exists>p \<in> set assoc. snd p = k \<and> fst p \<in> set rids) \<longleftrightarrow>
        (\<exists>rid \<in> set rids. (rid, k) \<in> set assoc)" for k
    by force
  then show ?thesis
    by (auto simp: join_entity_def image_constant_conv split: if_splits)
qed

lemma set_recipe_queryset:
  "set (recipe_queryset u tag_ids ingredient_ids st) =
     {r \<in> set (recipes st). rec_user r = u \<and>
        (case tag_ids of None \<Rightarrow> True
         | Some ids \<Rightarrow> \<exists>t \<in> set ids. (rec_id r, t) \<in> set (recipe_tags st)) \<and>
        (case ingredient_ids of None \<Rightarrow> True
         | Some ids \<Rightarrow> \<exists>i \<in> set ids. (rec_id r, i) \<in> set (recipe_ingredient st))}"
  by (cases tag_ids; cases ingredient_ids)
     (auto simp: recipe_queryset_def Let_def set_join_recipe)

lemma distinct_recipe_queryset: "distinct (recipe_queryset u tag_ids ingredient_ids st)"
  by (simp add: recipe_queryset_def Let_def)

lemma set_entity_queryset:
  "set (entity_queryset u assigned_only tbl assoc owned) =
     {e \<in> set tbl. ent_user e = u \<and>
        (assigned_only \<longrightarrow> (\<exists>rid \<in> set owned. (rid, ent_id e) \<in> set assoc))}"
  by (auto simp: entity_queryset_def Let_def set_join_entity)

lemma distinct_entity_queryset: "distinct (entity_queryset u assigned_only tbl assoc owned)"
  by (simp add: entity_queryset_def Let_def)

text \<open>
  Claim C7. The recipe list with a \<open>tags\<close> filter holds exactly the user's recipes that are
  associated with at least one of the given tag ids, each once, however many of the ids it
  matches; the same for the ingredient filter; and with both filters a recipe must pass
  both.
\<close>

theorem C7_recipe_filters:
  "set (recipe_list u tag_ids ingredient_ids st) =
     {r \<in> set (recipes st). rec_user r = u \<and>
        (case tag_ids of None \<Rightarrow> True
         | Some ids \<Rightarrow> \<exists>t \<in> set ids. (rec_id r, t) \<in> set (recipe_tags st)) \<and>
        (case ingredient_ids of None \<Rightarrow> True
         | Some ids \<Rightarrow> \<exists>i \<in> set ids. (rec_id r, i) \<in> set (recipe_ingredient st))} \<and>
   distinct (recipe_list u tag_ids ingredient_ids st)"
  by (simp add: recipe_list_def set_recipe_queryset distinct_recipe_queryset)

text \<open>
  Claim C8. With \<open>assigned_only\<close> the tag list holds exactly the user's tags that are
  associated with at least one recipe of the user, each once, however many recipes carry
  it; the same for the ingredient list.
\<close>

theorem C8_assigned_only:
  "set (tag_list u True st) =
     {t \<in> set (tags st). ent_user t = u \<and>
        (\<exists>r \<in> set (recipes st). rec_user r = u \<and> (rec_id r, ent_id t) \<in> set (recipe_tags st))} \<and>
   distinct (tag_list u True st) \<and>
   set (ingredient_list u True st) =
     {i \<in> set (ingredients st). ent_user i = u \<and>
        (\<exists>r \<in> set (recipes st). rec_user r = u \<and>
           (rec_id r, ent_id i) \<in> set (recipe_ingredient st))} \<and>
   distinct (ingredient_list u True st)"
  by (auto simp: tag_list_def ingredient_list_def set_entity_queryset distinct_entity_queryset
      owned_recipe_ids_def)











text \<open>The state of \<open>test_filter_by_tags\<close>, with recipe 1 carrying both tags: the join has
  it twice, the list once.\<close>

theorem C7_recipe_filters_witness:
  "map rec_id (recipe_list 1 (Some [1, 2]) None ex_filter_db) = [2, 1] \<and>
   map rec_id (join_recipe (recipe_tags ex_filter_db) [1, 2] (recipes ex_filter_db)) = [1, 1, 2] \<and>
   map rec_id (recipe_list 1 None (Some [1]) ex_filter_db) = [3, 1] \<and>
   map rec_id (recipe_list 1 (Some [1, 2]) (Some [1]) ex_filter_db) = [1] \<and>
   distinct (recipe_list 1 (Some [1, 2]) None ex_filter_db)"
proof -
  have a: "map rec_id (recipe_list 1 (Some [1, 2]) None ex_filter_db) = [2, 1]" by code_simp
  have b: "map rec_id (join_recipe (recipe_tags ex_filter_db) [1, 2] (recipes ex_filter_db)) =
             [1, 1, 2]" by code_simp
  have c: "map rec_id (recipe_list 1 None (Some [1]) ex_filter_db) = [3, 1]" by code_simp
  have d: "map rec_id (recipe_list 1 (Some [1, 2]) (Some [1]) ex_filter_db) = [1]" by code_simp
  from C7_recipe_filters [of 1 "Some [1, 2]" None ex_filter_db]
  have "distinct (recipe_list 1 (Some [1, 2]) None ex_filter_db)" by (rule conjunct2)
  with a b c d show ?thesis by blast
qed

text \<open>Tag 2 is on two recipes and listed once; tag 3 is on none and not listed.\<close>

theorem C8_assigned_only_witness:
  "map ent_id (tag_list 1 True ex_filter_db) = [2, 1] \<and>
   map ent_id (join_entity (recipe_tags ex_filter_db) (owned_recipe_ids 1 ex_filter_db)
                 (tags ex_filter_db)) = [1, 2, 2] \<and>
   map ent_id (tag_list 1 False ex_filter_db) = [3, 2, 1] \<and>
   map ent_id (ingredient_list 1 True ex_filter_db) = [1] \<and>
   distinct (tag_list 1 True ex_filter_db)"
proof -
  have a: "map ent_id (tag_list 1 True ex_filter_db) = [2, 1]" by code_simp
  have b: "map ent_id (join_entity (recipe_tags ex_filter_db) (owned_recipe_ids 1 ex_filter_db)
                 (tags ex_filter_db)) = [1, 2, 2]" by code_simp
  have c: "map ent_id (tag_list 1 False ex_filter_db) = [3, 2, 1]" by code_simp
  have d: "map ent_id (ingredient_list 1 True ex_filter_db) = [1]" by code_simp
  from C8_assigned_only [of 1 ex_filter_db]
  have "distinct (tag_list 1 True ex_filter_db)" by blast
  with a b c d show ?thesis by blast
qed

end
